theory Spec2Isabelle
  imports Main "HOL-Library.Sublist"
begin

section \<open>Python strings\<close>

text \<open>
  Python \<^verbatim>\<open>str\<close> values are modelled as \<^typ>\<open>string\<close>; the text handled by the
  importer is taken to be ASCII, so that one \<^typ>\<open>char\<close> is one Python character.
\<close>

definition startswith :: "string \<Rightarrow> string \<Rightarrow> bool" where
  "startswith s p = (take (length p) s = p)"

definition endswith :: "string \<Rightarrow> string \<Rightarrow> bool" where
  "endswith s p = (length p \<le> length s \<and> drop (length s - length p) s = p)"

text \<open>\<^verbatim>\<open>s[:-k]\<close> for a positive constant \<open>k\<close>: everything but the last \<open>k\<close>
  characters, and the empty string when \<open>s\<close> has at most \<open>k\<close> characters.\<close>

definition drop_last :: "nat \<Rightarrow> string \<Rightarrow> string" where
  "drop_last k s = take (length s - k) s"

text \<open>\<^verbatim>\<open>s.replace(old, new)\<close>: every non-overlapping occurrence, leftmost first.\<close>

fun replace_ne :: "string \<Rightarrow> string \<Rightarrow> string \<Rightarrow> string" where
  "replace_ne old new [] = []"
| "replace_ne old new (c # cs) =
     (if startswith (c # cs) old
      then new @ replace_ne old new (drop (length old - 1) cs)
      else c # replace_ne old new cs)"

definition replace :: "string \<Rightarrow> string \<Rightarrow> string \<Rightarrow> string" where
  "replace s old new =
     (if old = [] then new @ concat (map (\<lambda>c. c # new) s) else replace_ne old new s)"

definition isspace :: "char \<Rightarrow> bool" where
  "isspace c = (c \<in> set [CHR '' '', CHR 0x09, CHR 0x0A, CHR 0x0B, CHR 0x0C, CHR 0x0D,
                           CHR 0x1C, CHR 0x1D, CHR 0x1E, CHR 0x1F])"

definition isdigit :: "char \<Rightarrow> bool" where
  "isdigit c = (c \<in> set ''0123456789'')"

definition lower :: "char \<Rightarrow> char" where
  "lower c = (let n = (of_char c :: nat) in if 65 \<le> n \<and> n \<le> 90 then char_of (n + 32) else c)"

definition upper :: "char \<Rightarrow> char" where
  "upper c = (let n = (of_char c :: nat) in if 97 \<le> n \<and> n \<le> 122 then char_of (n - 32) else c)"

text \<open>\<^verbatim>\<open>s.strip()\<close>: leading and trailing whitespace removed.\<close>

definition strip :: "string \<Rightarrow> string" where
  "strip s = rev (dropWhile isspace (rev (dropWhile isspace s)))"

section \<open>Regular expressions\<close>

text \<open>
  The fragment of Python's \<^verbatim>\<open>re\<close> that the importer's patterns use: literals, the classes
  \<^verbatim>\<open>.\<close>, \<^verbatim>\<open>\d\<close> and \<^verbatim>\<open>\s\<close>, greedy and lazy repetition of a class, sequence,
  alternation, numbered groups and the anchor \<^verbatim>\<open>^\<close>. The matcher is a backtracking one
  with a continuation, so it tries the alternatives in Python's order and returns the
  first match. Flags are the integers Python passes around.
\<close>

datatype atom = AnyChar | Digit | Space

datatype rx =
    Lit string
  | One atom
  | Star atom
  | StarLazy atom
  | Seq rx rx
  | Alt rx rx
  | Group nat rx
  | Bol

text \<open>A pattern written as the sequence of its parts.\<close>

fun cat :: "rx list \<Rightarrow> rx" where
  "cat [] = Lit []"
| "cat [r] = r"
| "cat (r # rs) = Seq r (cat rs)"

definition re_IGNORECASE :: nat where "re_IGNORECASE = 2"
definition re_DOTALL :: nat where "re_DOTALL = 16"

definition has_flag :: "nat \<Rightarrow> nat \<Rightarrow> bool" where
  "has_flag fl f = ((fl div f) mod 2 = 1)"

fun atom_ok :: "nat \<Rightarrow> atom \<Rightarrow> char \<Rightarrow> bool" where
  "atom_ok fl AnyChar c = (has_flag fl re_DOTALL \<or> c \<noteq> CHR 0x0A)"
| "atom_ok fl Digit c = isdigit c"
| "atom_ok fl Space c = isspace c"

definition lit_eq :: "nat \<Rightarrow> string \<Rightarrow> string \<Rightarrow> bool" where
  "lit_eq fl a b = (if has_flag fl re_IGNORECASE then map lower a = map lower b else a = b)"

type_synonym caps = "(nat \<times> string) list"

fun star :: "nat \<Rightarrow> atom \<Rightarrow> nat \<Rightarrow> string \<Rightarrow> (nat \<Rightarrow> string \<Rightarrow> 'a option) \<Rightarrow> 'a option" where
  "star fl a pos [] k = k pos []"
| "star fl a pos (c # cs) k =
     (if atom_ok fl a c
      then (case star fl a (Suc pos) cs k of Some r \<Rightarrow> Some r | None \<Rightarrow> k pos (c # cs))
      else k pos (c # cs))"

fun star_lazy :: "nat \<Rightarrow> atom \<Rightarrow> nat \<Rightarrow> string \<Rightarrow> (nat \<Rightarrow> string \<Rightarrow> 'a option) \<Rightarrow> 'a option" where
  "star_lazy fl a pos [] k = k pos []"
| "star_lazy fl a pos (c # cs) k =
     (case k pos (c # cs) of
        Some r \<Rightarrow> Some r
      | None \<Rightarrow> if atom_ok fl a c then star_lazy fl a (Suc pos) cs k else None)"

fun rx_match :: "nat \<Rightarrow> rx \<Rightarrow> nat \<Rightarrow> string \<Rightarrow> caps \<Rightarrow> (nat \<Rightarrow> string \<Rightarrow> caps \<Rightarrow> 'a option) \<Rightarrow> 'a option" where
  "rx_match fl (Lit l) pos s cp k =
     (if lit_eq fl (take (length l) s) l then k (pos + length l) (drop (length l) s) cp else None)"
| "rx_match fl (One a) pos s cp k =
     (case s of [] \<Rightarrow> None | c # cs \<Rightarrow> if atom_ok fl a c then k (Suc pos) cs cp else None)"
| "rx_match fl (Star a) pos s cp k = star fl a pos s (\<lambda>p r. k p r cp)"
| "rx_match fl (StarLazy a) pos s cp k = star_lazy fl a pos s (\<lambda>p r. k p r cp)"
| "rx_match fl (Seq r1 r2) pos s cp k = rx_match fl r1 pos s cp (\<lambda>p r c. rx_match fl r2 p r c k)"
| "rx_match fl (Alt r1 r2) pos s cp k =
     (case rx_match fl r1 pos s cp k of Some x \<Rightarrow> Some x | None \<Rightarrow> rx_match fl r2 pos s cp k)"
| "rx_match fl (Group i r) pos s cp k =
     rx_match fl r pos s cp (\<lambda>p rest c. k p rest ((i, take (p - pos) s) # c))"
| "rx_match fl Bol pos s cp k = (if pos = 0 then k pos s cp else None)"

text \<open>A match that starts at position \<open>pos\<close>, where \<open>s\<close> is the text from there on: where
  it ends, and what the groups hold.\<close>

definition match_at :: "nat \<Rightarrow> rx \<Rightarrow> nat \<Rightarrow> string \<Rightarrow> (nat \<times> caps) option" where
  "match_at fl r pos s = rx_match fl r pos s [] (\<lambda>p rest c. Some (p, c))"

text \<open>\<^verbatim>\<open>m.group(i)\<close> of a group that took part in the match; \<^verbatim>\<open>findall\<close> gives the
  empty string for one that did not.\<close>

definition group_of :: "caps \<Rightarrow> nat \<Rightarrow> string" where
  "group_of cp i = (case map_of cp i of Some g \<Rightarrow> g | None \<Rightarrow> [])"

record rmatch =
  m_start :: nat
  m_end :: nat
  m_text :: string
  m_caps :: caps

definition mk_match :: "nat \<Rightarrow> string \<Rightarrow> nat \<times> caps \<Rightarrow> rmatch" where
  "mk_match pos s ec = \<lparr>m_start = pos, m_end = fst ec, m_text = take (fst ec - pos) s, m_caps = snd ec\<rparr>"

text \<open>\<^verbatim>\<open>pattern.match(s)\<close> anchors at the start; \<^verbatim>\<open>re.search\<close> tries every start
  position from the left.\<close>

definition re_match :: "rx \<Rightarrow> string \<Rightarrow> nat \<Rightarrow> rmatch option" where
  "re_match r s fl = map_option (mk_match 0 s) (match_at fl r 0 s)"

fun search_from :: "nat \<Rightarrow> rx \<Rightarrow> nat \<Rightarrow> string \<Rightarrow> rmatch option" where
  "search_from fl r pos [] = map_option (mk_match pos []) (match_at fl r pos [])"
| "search_from fl r pos (c # cs) =
     (case match_at fl r pos (c # cs) of
        Some ec \<Rightarrow> Some (mk_match pos (c # cs) ec)
      | None \<Rightarrow> search_from fl r (Suc pos) cs)"

definition re_search :: "rx \<Rightarrow> string \<Rightarrow> nat \<Rightarrow> rmatch option" where
  "re_search r s fl = search_from fl r 0 s"

text \<open>The non-overlapping matches from left to right. After a match of \<open>n > 0\<close> characters
  the scan skips the \<open>n - 1\<close> characters that follow its first one; after an empty match
  it moves on by one character.\<close>

fun finditer_from :: "nat \<Rightarrow> rx \<Rightarrow> nat \<Rightarrow> nat \<Rightarrow> string \<Rightarrow> rmatch list" where
  "finditer_from fl r skip pos [] =
     (if skip = 0 then (case match_at fl r pos [] of Some ec \<Rightarrow> [mk_match pos [] ec] | None \<Rightarrow> [])
      else [])"
| "finditer_from fl r skip pos (c # cs) =
     (if 0 < skip then finditer_from fl r (skip - 1) (Suc pos) cs
      else (case match_at fl r pos (c # cs) of
              Some ec \<Rightarrow> mk_match pos (c # cs) ec # finditer_from fl r (fst ec - pos - 1) (Suc pos) cs
            | None \<Rightarrow> finditer_from fl r 0 (Suc pos) cs))"

definition finditer :: "rx \<Rightarrow> string \<Rightarrow> nat \<Rightarrow> rmatch list" where
  "finditer r s fl = finditer_from fl r 0 0 s"

text \<open>\<^verbatim>\<open>re.sub(pattern, repl, s, count)\<close> with a replacement text that has no group
  reference; \<open>count = 0\<close> replaces every match.\<close>

fun sub_from :: "nat \<Rightarrow> rx \<Rightarrow> string \<Rightarrow> nat option \<Rightarrow> nat \<Rightarrow> nat \<Rightarrow> string \<Rightarrow> string" where
  "sub_from fl r repl budget skip pos [] =
     (if skip = 0 \<and> budget \<noteq> Some 0
      then (case match_at fl r pos [] of Some ec \<Rightarrow> repl | None \<Rightarrow> [])
      else [])"
| "sub_from fl r repl budget skip pos (c # cs) =
     (if 0 < skip then sub_from fl r repl budget (skip - 1) (Suc pos) cs
      else if budget = Some 0 then c # cs
      else (case match_at fl r pos (c # cs) of
              Some ec \<Rightarrow>
                if fst ec = pos
                then repl @ c # sub_from fl r repl (map_option (\<lambda>n. n - 1) budget) 0 (Suc pos) cs
                else repl @ sub_from fl r repl (map_option (\<lambda>n. n - 1) budget) (fst ec - pos - 1) (Suc pos) cs
            | None \<Rightarrow> c # sub_from fl r repl budget 0 (Suc pos) cs))"

definition re_sub :: "rx \<Rightarrow> string \<Rightarrow> string \<Rightarrow> nat \<Rightarrow> nat \<Rightarrow> string" where
  "re_sub r repl s count fl = sub_from fl r repl (if count = 0 then None else Some count) 0 0 s"

section \<open>Errors and the file system\<close>

text \<open>
  \<^verbatim>\<open>sys.exit(1)\<close> and the exceptions that leave a function are values.
  \<open>RecursionError\<close> is what the interpreter raises at a call that is nested deeper than
  its recursion limit allows.
\<close>

datatype error =
    SysExit
  | FileExistsError
  | FileNotFoundError
  | OSError
  | KeyError
  | IndexError
  | AttributeError
  | RecursionError

text \<open>
  The file system holds the regular files with their text and the directories, each
  under its path. A file is looked up by its path as the program writes it, a directory
  also with slashes at the end of its path; \<^verbatim>\<open>.\<close>, \<^verbatim>\<open>..\<close>, doubled slashes and
  links are not modelled.
\<close>

record filesystem =
  files :: "(string \<times> string) list"
  dirs :: "string list"

definition canon :: "string \<Rightarrow> string" where
  "canon p = rev (dropWhile (\<lambda>c. c = CHR ''/'') (rev p))"

definition read_file :: "filesystem \<Rightarrow> string \<Rightarrow> string option" where
  "read_file fs p = (if p = [] \<or> endswith p ''/'' then None else map_of (files fs) p)"

definition isfile :: "filesystem \<Rightarrow> string \<Rightarrow> bool" where
  "isfile fs p = (read_file fs p \<noteq> None)"

definition isdir :: "filesystem \<Rightarrow> string \<Rightarrow> bool" where
  "isdir fs p = (canon p \<in> set (dirs fs))"

definition path_join :: "string \<Rightarrow> string \<Rightarrow> string" where
  "path_join a b =
     (if startswith b ''/'' then b
      else if a = [] \<or> endswith a ''/'' then a @ b
      else a @ ''/'' @ b)"

definition basename :: "string \<Rightarrow> string" where
  "basename p = rev (takeWhile (\<lambda>c. c \<noteq> CHR ''/'') (rev p))"

definition dirname :: "string \<Rightarrow> string" where
  "dirname p = canon (rev (dropWhile (\<lambda>c. c \<noteq> CHR ''/'') (rev p)))"

text \<open>A file's text replaced, or the file added.\<close>

definition write_file :: "filesystem \<Rightarrow> string \<Rightarrow> string \<Rightarrow> filesystem" where
  "write_file fs p content =
     fs\<lparr>files := (if map_of (files fs) p = None then files fs @ [(p, content)]
                   else map (\<lambda>(q, t). if q = p then (q, content) else (q, t)) (files fs))\<rparr>"

text \<open>\<^verbatim>\<open>os.makedirs(p)\<close>: the directory and the missing ones above it; an error when
  \<open>p\<close> is there already.\<close>

fun missing_dirs :: "filesystem \<Rightarrow> string \<Rightarrow> string \<Rightarrow> string list" where
  "missing_dirs fs seen [] = []"
| "missing_dirs fs seen (c # cs) =
     (if c = CHR ''/'' \<and> seen \<noteq> [] \<and> \<not> isdir fs seen then [seen] else [])
     @ missing_dirs fs (seen @ [c]) cs"

definition makedirs :: "filesystem \<Rightarrow> string \<Rightarrow> error + filesystem" where
  "makedirs fs p =
     (if isdir fs p \<or> isfile fs p then Inl FileExistsError
      else Inr (fs\<lparr>dirs := dirs fs @ remdups (missing_dirs fs [] (canon p)) @ [canon p]\<rparr>))"

text \<open>\<^verbatim>\<open>shutil.copy(src, dst)\<close>: into \<open>dst\<close> when that is a directory.\<close>

definition copy :: "filesystem \<Rightarrow> string \<Rightarrow> string \<Rightarrow> error + filesystem" where
  "copy fs src dst =
     (let target = (if isdir fs dst then path_join dst (basename src) else dst) in
      case read_file fs src of
        None \<Rightarrow> Inl FileNotFoundError
      | Some content \<Rightarrow>
          if src = target \<or> target = [] \<or> endswith target ''/'' \<or> isdir fs target
             \<or> \<not> isdir fs (dirname target)
          then Inl OSError
          else Inr (write_file fs target content))"

text \<open>
  A file opened in text mode is read with universal newlines: a line feed, a carriage
  return, and a carriage return with the line feed after it each end a line, and each is
  read as one line feed. \<^verbatim>\<open>read()\<close> gives the whole text so translated; iterating over
  the file gives its lines, each with its line end.
\<close>

fun universal_newlines :: "string \<Rightarrow> string" where
  "universal_newlines [] = []"
| "universal_newlines [c] = (if c = CHR 0x0D then [CHR 0x0A] else [c])"
| "universal_newlines (c # d # cs) =
     (if c = CHR 0x0D \<and> d = CHR 0x0A then CHR 0x0A # universal_newlines cs
      else if c = CHR 0x0D then CHR 0x0A # universal_newlines (d # cs)
      else c # universal_newlines (d # cs))"

fun file_lines :: "string \<Rightarrow> string list" where
  "file_lines [] = []"
| "file_lines [c] = (if c = CHR 0x0D \<or> c = CHR 0x0A then [[CHR 0x0A]] else [[c]])"
| "file_lines (c # d # cs) =
     (if c = CHR 0x0D \<and> d = CHR 0x0A then [CHR 0x0A] # file_lines cs
      else if c = CHR 0x0D \<or> c = CHR 0x0A then [CHR 0x0A] # file_lines (d # cs)
      else (case file_lines (d # cs) of [] \<Rightarrow> [[c]] | l # ls \<Rightarrow> (c # l) # ls))"

text \<open>\<^verbatim>\<open>s.split(sep)\<close> for a separator that is not empty, and \<^verbatim>\<open>sep.join(xs)\<close>.\<close>

fun split :: "string \<Rightarrow> string \<Rightarrow> string list" where
  "split [] sep = [[]]"
| "split (c # cs) sep =
     (if startswith (c # cs) sep then [] # split (drop (length sep - 1) cs) sep
      else (case split cs sep of [] \<Rightarrow> [[c]] | x # xs \<Rightarrow> (c # x) # xs))"

fun join :: "string \<Rightarrow> string list \<Rightarrow> string" where
  "join sep [] = []"
| "join sep [x] = x"
| "join sep (x # xs) = x @ sep @ join sep xs"

text \<open>\<^verbatim>\<open>os.walk(top)\<close> from the top down: a directory with the names of its
  directories and of its files, then each of its directories in turn.\<close>

definition child_name :: "string \<Rightarrow> string \<Rightarrow> string option" where
  "child_name folder p =
     (let n = drop (length folder + 1) p in
      if take (length folder + 1) p = folder @ ''/'' \<and> n \<noteq> [] \<and> CHR ''/'' \<notin> set n
      then Some n else None)"

definition listdir_dirs :: "filesystem \<Rightarrow> string \<Rightarrow> string list" where
  "listdir_dirs fs folder = List.map_filter (child_name (canon folder)) (dirs fs)"

definition listdir_files :: "filesystem \<Rightarrow> string \<Rightarrow> string list" where
  "listdir_files fs folder = List.map_filter (child_name (canon folder)) (map fst (files fs))"

lemma filter_length_less:
  assumes "\<And>x. P x \<Longrightarrow> Q x" and "x \<in> set xs" and "Q x" and "\<not> P x"
  shows "length (filter P xs) < length (filter Q xs)"
  using assms
proof (induction xs)
  case Nil
  then show ?case by simp
next
  case (Cons y ys)
  have le: "length (filter P ys) \<le> length (filter Q ys)"
    using Cons.prems(1) by (induction ys) auto
  show ?case
  proof (cases "x = y")
    case True
    then show ?thesis using Cons.prems le by simp
  next
    case False
    then have "x \<in> set ys" using Cons.prems by simp
    then have "length (filter P ys) < length (filter Q ys)"
      using Cons.IH Cons.prems by blast
    then show ?thesis using Cons.prems(1) by auto
  qed
qed

lemma child_name_Some:
  "child_name folder p = Some n \<Longrightarrow> p = folder @ ''/'' @ n \<and> n \<noteq> [] \<and> CHR ''/'' \<notin> set n"
  by (auto simp: child_name_def Let_def split: if_splits)
     (metis append_take_drop_id append.assoc append_Cons append_Nil)

lemma in_map_filter:
  "y \<in> set (List.map_filter f xs) \<longleftrightarrow> (\<exists>x \<in> set xs. f x = Some y)"
  by (induction xs) (auto simp: List.map_filter_simps split: option.splits)

lemma listdir_dirs_member:
  assumes "d \<in> set (listdir_dirs fs folder)"
  shows "canon folder @ ''/'' @ d \<in> set (dirs fs) \<and> d \<noteq> [] \<and> CHR ''/'' \<notin> set d"
proof -
  from assms obtain p where p: "p \<in> set (dirs fs)" "child_name (canon folder) p = Some d"
    unfolding listdir_dirs_def in_map_filter by blast
  from child_name_Some [OF p(2)] p(1) show ?thesis by simp
qed

function os_walk :: "filesystem \<Rightarrow> string \<Rightarrow> (string \<times> string list \<times> string list) list" where
  "os_walk fs folder =
     (if \<not> isdir fs folder then []
      else (folder, listdir_dirs fs folder, listdir_files fs folder)
           # concat (map (\<lambda>d. os_walk fs (path_join folder d)) (listdir_dirs fs folder)))"
  by pat_completeness auto

lemma canon_decomp: "\<exists>s. p = canon p @ s \<and> set s \<subseteq> {CHR ''/''}"
proof -
  let ?P = "\<lambda>c. c = CHR ''/''"
  have "rev p = takeWhile ?P (rev p) @ dropWhile ?P (rev p)" by simp
  then have "p = rev (dropWhile ?P (rev p)) @ rev (takeWhile ?P (rev p))"
    by (metis rev_append rev_rev_ident)
  moreover have "set (rev (takeWhile ?P (rev p))) \<subseteq> {CHR ''/''}"
    by (auto dest: set_takeWhileD)
  ultimately show ?thesis unfolding canon_def by blast
qed

lemma canon_no_slash_end: "p \<noteq> [] \<Longrightarrow> last p \<noteq> CHR ''/'' \<Longrightarrow> canon p = p"
  by (cases p rule: rev_cases) (simp_all add: canon_def)

lemma canon_append_name: "d \<noteq> [] \<Longrightarrow> CHR ''/'' \<notin> set d \<Longrightarrow> canon (x @ d) = x @ d"
proof (rule canon_no_slash_end)
  assume "d \<noteq> []" "CHR ''/'' \<notin> set d"
  then have "last d \<noteq> CHR ''/''" using last_in_set by metis
  then show "last (x @ d) \<noteq> CHR ''/''" using \<open>d \<noteq> []\<close> by (simp add: last_append)
qed simp

lemma endswith_slash: "endswith p ''/'' \<longleftrightarrow> p \<noteq> [] \<and> last p = CHR ''/''"
  by (cases p rule: rev_cases) (auto simp: endswith_def)

lemma startswith_slash: "startswith d ''/'' \<longleftrightarrow> d \<noteq> [] \<and> hd d = CHR ''/''"
  by (cases d) (auto simp: startswith_def)

lemma os_walk_descends:
  assumes d: "d \<in> set (listdir_dirs fs folder)"
  shows "length (filter (strict_prefix (canon (path_join folder d))) (dirs fs))
       < length (filter (strict_prefix (canon folder)) (dirs fs))"
proof -
  from listdir_dirs_member [OF d]
  have p: "canon folder @ ''/'' @ d \<in> set (dirs fs)" and ne: "d \<noteq> []"
    and ns: "CHR ''/'' \<notin> set d" by simp_all
  obtain s where s: "folder = canon folder @ s" "set s \<subseteq> {CHR ''/''}"
    using canon_decomp by blast
  have hd: "hd d \<noteq> CHR ''/''" using ne ns by (cases d) auto
  then have nsw: "\<not> startswith d ''/''" by (simp add: startswith_slash)
  consider (glue) "path_join folder d = folder @ d" "folder = [] \<or> s \<noteq> []"
    | (sep) "path_join folder d = folder @ ''/'' @ d" "canon folder = folder"
  proof (cases "folder = [] \<or> endswith folder ''/''")
    case True
    have "folder = [] \<or> s \<noteq> []"
    proof (rule ccontr)
      assume "\<not> (folder = [] \<or> s \<noteq> [])"
      then have f: "folder \<noteq> []" "s = []" by simp_all
      with True have "last folder = CHR ''/''" by (simp add: endswith_slash)
      moreover have "canon folder = folder" using s f by simp
      then have "last folder \<noteq> CHR ''/''"
        using f(1) unfolding canon_def
        by (metis (mono_tags, lifting) dropWhile_eq_Nil_conv hd_dropWhile hd_rev rev_is_Nil_conv
            rev_rev_ident)
      ultimately show False by simp
    qed
    with True nsw show ?thesis using glue by (simp add: path_join_def)
  next
    case False
    then have "canon folder = folder"
      by (intro canon_no_slash_end) (auto simp: endswith_slash)
    with False nsw show ?thesis using sep by (simp add: path_join_def)
  qed
  then have both: "prefix (canon folder) (canon (path_join folder d)) \<and>
           \<not> strict_prefix (canon (path_join folder d)) (canon folder @ ''/'' @ d)"
  proof cases
    case glue
    have c: "canon (path_join folder d) = canon folder @ s @ d"
      using glue(1) s(1) canon_append_name [OF ne ns, of folder] by (metis append.assoc)
    have "\<not> strict_prefix (canon (path_join folder d)) (canon folder @ ''/'' @ d)"
    proof
      assume "strict_prefix (canon (path_join folder d)) (canon folder @ ''/'' @ d)"
      then have sp: "strict_prefix (s @ d) (''/'' @ d)"
        using c by (simp add: strict_prefix_def)
      then have "length (s @ d) < length (''/'' @ d)" by (rule prefix_length_less)
      then have "s = []" by simp
      with sp have "prefix d (CHR ''/'' # d)" by (simp add: strict_prefix_def)
      then show False using ne hd by (cases d) (auto simp: prefix_Cons)
    qed
    then show ?thesis using c by simp
  next
    case sep
    have c: "canon (path_join folder d) = canon folder @ ''/'' @ d"
      using sep canon_append_name [OF ne ns, of "folder @ ''/''"] by simp
    then show ?thesis by simp
  qed
  show ?thesis
  proof (rule filter_length_less [where x = "canon folder @ ''/'' @ d"])
    fix q assume "strict_prefix (canon (path_join folder d)) q"
    with both show "strict_prefix (canon folder) q"
      using prefix_order.le_less_trans by blast
  next
    show "canon folder @ ''/'' @ d \<in> set (dirs fs)" by (rule p)
    show "strict_prefix (canon folder) (canon folder @ ''/'' @ d)"
      by (simp add: strict_prefix_def)
    show "\<not> strict_prefix (canon (path_join folder d)) (canon folder @ ''/'' @ d)"
      using both by simp
  qed
qed

termination os_walk
  by (relation "measure (\<lambda>(fs, folder). length (filter (strict_prefix (canon folder)) (dirs fs)))")
     (auto intro: os_walk_descends)

declare os_walk.simps [simp del]

section \<open>The hierarchy planner\<close>

text \<open>The workspace folder is a parameter; the plan folder is \<^verbatim>\<open>os.path.join(WORK_FOLDER, "plan")\<close>.\<close>

definition PLAN_FOLDER :: "string \<Rightarrow> string" where
  "PLAN_FOLDER work = path_join work ''plan''"

text \<open>The Index Entry pattern \<^verbatim>\<open>^\* \[.*]\((.*)\)\<close>.\<close>

definition index_entry :: rx where
  "index_entry = cat [Bol, Lit ''* ['', Star AnyChar, Lit '']('', Group 1 (Star AnyChar), Lit '')'']"

text \<open>The loop of \<^verbatim>\<open>is_index_file\<close>: the first line that does not match ends it.\<close>

fun is_index_lines :: "string list \<Rightarrow> bool" where
  "is_index_lines [] = True"
| "is_index_lines (line # rest) =
     (if re_match index_entry line 0 = None then False else is_index_lines rest)"

text \<open>A file that cannot be opened is logged and ends the run.\<close>

definition is_index_file :: "filesystem \<Rightarrow> string \<Rightarrow> error + bool" where
  "is_index_file fs file_path =
     (case read_file fs file_path of
        None \<Rightarrow> Inl SysExit
      | Some content \<Rightarrow> Inr (is_index_lines (file_lines content)))"

definition get_subfolder_name :: "string \<Rightarrow> string" where
  "get_subfolder_name file_name =
     replace (if endswith file_name ''.md'' then drop_last 12 file_name else file_name) '' '' ''_''"

text \<open>
  The planner changes the file system as it goes, and what it has written stays when the
  run ends early: its functions give the file system they leave and the error, if any.
\<close>

definition check_plan_requirements :: "string \<Rightarrow> filesystem \<Rightarrow> filesystem \<times> error option" where
  "check_plan_requirements work fs =
     (if \<not> isfile fs (path_join work ''index.md'') then (fs, Some SysExit)
      else if isdir fs (PLAN_FOLDER work) then (fs, Some SysExit)
      else (case makedirs fs (PLAN_FOLDER work) of
              Inl e \<Rightarrow> (fs, Some e)
            | Inr fs' \<Rightarrow> (fs', None)))"

text \<open>
  One line of an index file: the entry's path is looked up under the workspace folder,
  once as written and once without its backslashes; an index file is planned in turn
  (\<open>rec\<close>, given the folder and the base name), any other file is copied. The body of the
  loop is inside \<^verbatim>\<open>try\<close>, and its \<^verbatim>\<open>except Exception\<close> clause logs the exception and calls
  \<^verbatim>\<open>sys.exit(1)\<close>: whatever a nested call raises, \<^verbatim>\<open>RecursionError\<close> too, leaves this call as
  \<^verbatim>\<open>SystemExit\<close>, and a \<^verbatim>\<open>SystemExit\<close> of a nested call passes through the clause as it is.
\<close>

definition caught :: "error \<Rightarrow> error" where
  "caught e = SysExit"

definition process_line ::
  "(filesystem \<Rightarrow> string \<Rightarrow> string \<Rightarrow> filesystem \<times> error option) \<Rightarrow> string \<Rightarrow> string
     \<Rightarrow> filesystem \<Rightarrow> string \<Rightarrow> filesystem \<times> error option" where
  "process_line rec work file_path fs line =
     (case re_search index_entry line 0 of
        None \<Rightarrow> (fs, Some SysExit)
      | Some m \<Rightarrow>
          let md_file = path_join work (group_of (m_caps m) 1);
              escaped_md_file = replace md_file [CHR 0x5C] [];
              found = (if isfile fs md_file then Some md_file
                       else if isfile fs escaped_md_file then Some escaped_md_file
                       else None)
          in case found of
               None \<Rightarrow> (fs, Some SysExit)
             | Some md_file \<Rightarrow>
                 (case is_index_file fs md_file of
                    Inl e \<Rightarrow> (fs, Some e)
                  | Inr True \<Rightarrow>
                      (case rec fs (path_join file_path (get_subfolder_name (basename md_file)))
                                  (basename md_file) of
                         (fs', Some e) \<Rightarrow> (fs', Some (caught e))
                       | (fs', None) \<Rightarrow> (fs', None))
                  | Inr False \<Rightarrow>
                      (case copy fs md_file (path_join (PLAN_FOLDER work) file_path) of
                         Inl e \<Rightarrow> (fs, Some SysExit)
                       | Inr fs' \<Rightarrow> (fs', None))))"

fun process_lines ::
  "(filesystem \<Rightarrow> string \<Rightarrow> string \<Rightarrow> filesystem \<times> error option) \<Rightarrow> string \<Rightarrow> string
     \<Rightarrow> filesystem \<Rightarrow> string list \<Rightarrow> filesystem \<times> error option" where
  "process_lines rec work file_path fs [] = (fs, None)"
| "process_lines rec work file_path fs (line # rest) =
     (case process_line rec work file_path fs line of
        (fs', Some e) \<Rightarrow> (fs', Some e)
      | (fs', None) \<Rightarrow> process_lines rec work file_path fs' rest)"

text \<open>
  \<^verbatim>\<open>process_index\<close>, given the number of calls of it that the interpreter's recursion
  limit lets stand inside each other; the call beyond that number raises \<^verbatim>\<open>RecursionError\<close>.
  The folder is made outside the \<^verbatim>\<open>try\<close>; the lines of the index file are read when the
  file is opened.
\<close>

fun process_index ::
  "nat \<Rightarrow> string \<Rightarrow> filesystem \<Rightarrow> string \<Rightarrow> string \<Rightarrow> filesystem \<times> error option" where
  "process_index 0 work fs file_path file_name = (fs, Some RecursionError)"
| "process_index (Suc n) work fs file_path file_name =
     (case (if file_path \<noteq> [] then makedirs fs (path_join (PLAN_FOLDER work) file_path)
            else Inr fs) of
        Inl e \<Rightarrow> (fs, Some e)
      | Inr fs1 \<Rightarrow>
          (case read_file fs1 (path_join work file_name) of
             None \<Rightarrow> (fs1, Some SysExit)
           | Some content \<Rightarrow>
               process_lines (process_index n work) work file_path fs1 (file_lines content)))"

definition plan_import :: "nat \<Rightarrow> string \<Rightarrow> filesystem \<Rightarrow> filesystem \<times> error option" where
  "plan_import n work fs =
     (case check_plan_requirements work fs of
        (fs', Some e) \<Rightarrow> (fs', Some e)
      | (fs', None) \<Rightarrow> process_index n work fs' [] ''index.md'')"

section \<open>The remote wiki\<close>

text \<open>
  The space as the importer sees it through the REST interface: its pages, each with its
  id, its title, its body and the ids of the pages above it from the top of the space
  down to its parent, and the ids the server will give to new pages.
\<close>

record page =
  pg_id :: string
  pg_title :: string
  pg_body :: string
  pg_ancestors :: "string list"

record remote =
  pages :: "page list"
  fresh_ids :: "string list"

text \<open>
  \<^verbatim>\<open>is_child(child, ancestor)\<close>: the page \<open>child\<close> is fetched with its ancestors; a failed
  request gives the empty string, which counts as false where the result is tested. The
  last ancestor's id is compared with \<open>child\<close>.
\<close>

definition is_child :: "remote \<Rightarrow> string \<Rightarrow> string \<Rightarrow> error + bool" where
  "is_child rm child ancestor =
     (case find (\<lambda>p. pg_id p = child) (pages rm) of
        None \<Rightarrow> Inr False
      | Some data \<Rightarrow>
          (case pg_ancestors data of
             [] \<Rightarrow> Inl IndexError
           | a # as \<Rightarrow> Inr (last (a # as) = child)))"

fun first_child :: "remote \<Rightarrow> page list \<Rightarrow> string \<Rightarrow> error + string" where
  "first_child rm [] ancestor = Inr []"
| "first_child rm (res # results) ancestor =
     (case is_child rm (pg_id res) ancestor of
        Inl e \<Rightarrow> Inl e
      | Inr True \<Rightarrow> Inr (pg_id res)
      | Inr False \<Rightarrow> first_child rm results ancestor)"

definition get_page_id :: "remote \<Rightarrow> string \<Rightarrow> string \<Rightarrow> error + string" where
  "get_page_id rm ttl ancestor = first_child rm (filter (\<lambda>p. pg_title p = ttl) (pages rm)) ancestor"

text \<open>
  \<^verbatim>\<open>create_page\<close>: an id that \<^verbatim>\<open>get_page_id\<close> found is returned; otherwise the page is
  posted, and the server puts it under \<open>ancestor\<close>. A request the server refuses ends the
  run.
\<close>

definition post_page :: "remote \<Rightarrow> string \<Rightarrow> string \<Rightarrow> string \<Rightarrow> error + (string \<times> remote)" where
  "post_page rm ttl content ancestor =
     (case (find (\<lambda>p. pg_id p = ancestor) (pages rm), fresh_ids rm) of
        (Some parent, new # ids) \<Rightarrow>
          Inr (new, rm\<lparr>pages := pages rm @ [\<lparr>pg_id = new, pg_title = ttl, pg_body = content,
                                               pg_ancestors = pg_ancestors parent @ [ancestor]\<rparr>],
                      fresh_ids := ids\<rparr>)
      | _ \<Rightarrow> Inl SysExit)"

definition create_page :: "remote \<Rightarrow> string \<Rightarrow> string \<Rightarrow> string \<Rightarrow> error + (string \<times> remote)" where
  "create_page rm ttl content ancestor =
     (case get_page_id rm ttl ancestor of
        Inl e \<Rightarrow> Inl e
      | Inr existing_id \<Rightarrow>
          if existing_id \<noteq> [] then Inr (existing_id, rm) else post_page rm ttl content ancestor)"

section \<open>The content transformer\<close>

definition upper_chars :: "string \<Rightarrow> nat list \<Rightarrow> string" where
  "upper_chars s indices = map (\<lambda>(i, c). if i \<in> set indices then upper c else c) (enumerate 0 s)"

text \<open>
  \<^verbatim>\<open>strip_type\<close>. Each \<^verbatim>\<open>re.sub(pattern, '', tag, re.IGNORECASE)\<close> passes
  \<^verbatim>\<open>re.IGNORECASE\<close> as the fourth positional argument of \<^verbatim>\<open>re.sub\<close>, which is
  \<open>count\<close>; the flags stay \<open>0\<close>.
\<close>

definition strip_type :: "string \<Rightarrow> string \<Rightarrow> error + string" where
  \<open>strip_type tag tagtype =
     (let tag = re_sub (cat [Lit tagtype, Lit '':'', One Space]) [] (strip tag) re_IGNORECASE 0;
          tag = re_sub (cat [Lit tagtype, One Space, Lit '':'', One Space]) [] (strip tag)
                  re_IGNORECASE 0;
          tag = re_sub (cat [Lit ''<'', StarLazy AnyChar, Lit ''>'', Lit tagtype, Lit '':'',
                             One Space, Lit ''<'', StarLazy AnyChar, Lit ''>''])
                  [] tag re_IGNORECASE 0;
          tag = re_sub (cat [Lit ''<'', StarLazy AnyChar, Lit ''>'', Lit tagtype, One Space,
                             Lit '':'', One Space, Lit ''<'', StarLazy AnyChar, Lit ''>''])
                  [] tag re_IGNORECASE 0;
          tag = re_sub (cat [Lit ''<'', Group 1 (Alt (Lit ''em'') (Lit ''strong'')), Lit ''>'',
                             Lit tagtype, Lit '':<'', StarLazy AnyChar, Lit ''>'', One Space])
                  [] tag re_IGNORECASE 0;
          tag = re_sub (cat [Lit ''<'', Group 1 (Alt (Lit ''em'') (Lit ''strong'')), Lit ''>'',
                             Lit tagtype, One Space, Lit '':<'', StarLazy AnyChar, Lit ''>'',
                             One Space])
                  [] tag re_IGNORECASE 0;
          tag = re_sub (cat [Lit ''<'', Group 1 (Alt (Lit ''em'') (Lit ''strong'')), Lit ''>'',
                             Lit tagtype, Lit ''<'', StarLazy AnyChar, Lit ''>:'', One Space])
                  [] tag re_IGNORECASE 0;
          tag = re_sub (cat [Lit ''<'', Group 1 (Alt (Lit ''em'') (Lit ''strong'')), Lit ''>'',
                             Lit tagtype, One Space, Lit ''<'', StarLazy AnyChar, Lit ''>:'',
                             One Space])
                  [] tag re_IGNORECASE 0
      in case re_search (cat [Lit ''<'', StarLazy AnyChar, Lit ''>'']) tag 0 of
           None \<Rightarrow> Inl AttributeError
         | Some string_start \<Rightarrow> Inr (upper_chars tag [m_end string_start]))\<close>

definition toc_tag :: string where
  \<open>toc_tag = ''<p>\<newline>    <ac:structured-macro ac:name="toc">\<newline>      <ac:parameter ac:name="printable">true</ac:parameter>\<newline>      <ac:parameter ac:name="style">disc</ac:parameter>\<newline>      <ac:parameter ac:name="maxLevel">7</ac:parameter>\<newline>      <ac:parameter ac:name="minLevel">1</ac:parameter>\<newline>      <ac:parameter ac:name="type">list</ac:parameter>\<newline>      <ac:parameter ac:name="outline">clear</ac:parameter>\<newline>      <ac:parameter ac:name="include">.*</ac:parameter>\<newline>    </ac:structured-macro>\<newline>    </p>''\<close>

definition convert_doctoc :: "string \<Rightarrow> string" where
  \<open>convert_doctoc html =
     re_sub (cat [Lit ''<!-- START doctoc'', Star AnyChar, Lit ''END doctoc -->'']) toc_tag html 0
       re_DOTALL\<close>

definition info_tag :: string where
  \<open>info_tag = ''<p><ac:structured-macro ac:name="info"><ac:rich-text-body><p>''\<close>

definition note_tag :: string where
  \<open>note_tag = replace info_tag ''info'' ''note''\<close>

definition warning_tag :: string where
  \<open>warning_tag = replace info_tag ''info'' ''warning''\<close>

definition close_tag :: string where
  \<open>close_tag = ''</p></ac:rich-text-body></ac:structured-macro></p>''\<close>

text \<open>The loop over the block quotes that \<^verbatim>\<open>re.findall\<close> found in the page.\<close>

fun convert_quotes :: "string \<Rightarrow> string list \<Rightarrow> error + string" where
  \<open>convert_quotes html [] = Inr html\<close>
| \<open>convert_quotes html (quote # quotes) =
     (let note = re_search (cat [Bol, Lit ''<'', Star AnyChar, Lit ''>Note'']) (strip quote)
                   re_IGNORECASE;
          warning = re_search (cat [Bol, Lit ''<'', Star AnyChar, Lit ''>Warning'']) (strip quote)
                      re_IGNORECASE;
          macro_tag =
            (if note \<noteq> None then
               map_sum id (\<lambda>clean_tag. strip (replace (replace clean_tag ''<p>'' note_tag)
                                                   ''</p>'' close_tag))
                 (strip_type quote ''Note'')
             else if warning \<noteq> None then
               map_sum id (\<lambda>clean_tag. strip (replace (replace clean_tag ''<p>'' warning_tag)
                                                   ''</p>'' close_tag))
                 (strip_type quote ''Warning'')
             else Inr (strip (replace (replace quote ''<p>'' info_tag) ''</p>'' close_tag)))
      in case macro_tag of
           Inl e \<Rightarrow> Inl e
         | Inr macro_tag \<Rightarrow>
             convert_quotes (replace html (''<blockquote>'' @ quote @ ''</blockquote>'') macro_tag)
               quotes)\<close>

definition convert_info_macros :: "string \<Rightarrow> error + string" where
  \<open>convert_info_macros html =
     (let html = replace (replace html ''<p>~?'' info_tag) ''?~</p>'' close_tag;
          html = replace (replace html ''<p>~!'' note_tag) ''!~</p>'' close_tag;
          html = replace (replace html ''<p>~%'' warning_tag) ''%~</p>'' close_tag;
          quotes = map (\<lambda>m. group_of (m_caps m) 1)
                     (finditer (cat [Lit ''<blockquote>'', Group 1 (StarLazy AnyChar),
                                     Lit ''</blockquote>'']) html re_DOTALL)
      in map_sum id convert_doctoc (convert_quotes html quotes))\<close>

definition convert_comment_block :: "string \<Rightarrow> string" where
  \<open>convert_comment_block html =
     replace (replace html ''<!--'' ''<ac:placeholder>'') ''-->'' ''</ac:placeholder>''\<close>

fun convert_code_blocks :: "string \<Rightarrow> string list \<Rightarrow> error + string" where
  \<open>convert_code_blocks html [] = Inr html\<close>
| \<open>convert_code_blocks html (tag # code_blocks) =
     (let conf_ml = ''<ac:structured-macro ac:name="code">'';
          conf_ml = conf_ml @ ''<ac:parameter ac:name="theme">Midnight</ac:parameter>'';
          conf_ml = conf_ml @ ''<ac:parameter ac:name="linenumbers">true</ac:parameter>'';
          lang = (case re_search (cat [Lit ''code class="'', Group 1 (Star AnyChar), Lit ''"''])
                         tag 0 of
                    Some m \<Rightarrow> group_of (m_caps m) 1
                  | None \<Rightarrow> ''none'');
          conf_ml = conf_ml @ ''<ac:parameter ac:name="language">'' @ lang @ ''</ac:parameter>''
      in case re_search (cat [Lit ''<pre><code'', StarLazy AnyChar, Lit ''>'',
                              Group 1 (StarLazy AnyChar), Lit ''</code></pre>'']) tag re_DOTALL of
           None \<Rightarrow> Inl AttributeError
         | Some m \<Rightarrow>
             let content = group_of (m_caps m) 1;
                 content = ''<ac:plain-text-body><![CDATA['' @ content @ '']]></ac:plain-text-body>'';
                 conf_ml = conf_ml @ content @ ''</ac:structured-macro>'';
                 conf_ml = replace (replace conf_ml ''&lt;'' ''<'') ''&gt;'' ''>'';
                 conf_ml = replace (replace conf_ml ''&quot;'' ''"'') ''&amp;'' ''&''
             in convert_code_blocks (replace html tag conf_ml) code_blocks)\<close>

definition convert_code_block :: "string \<Rightarrow> error + string" where
  \<open>convert_code_block html =
     convert_code_blocks html
       (map m_text (finditer (cat [Lit ''<pre><code'', StarLazy AnyChar, Lit ''>'',
                                   StarLazy AnyChar, Lit ''</code></pre>'']) html re_DOTALL))\<close>

text \<open>
  The footnote definitions \<^verbatim>\<open>\n(\[\^(\d)\].*)|<p>(\[\^(\d)\].*)\<close>; \<^verbatim>\<open>re.findall\<close> gives
  the four groups of each match, the empty string for a group of the other alternative.
\<close>

definition footnote_def :: rx where
  \<open>footnote_def =
     Alt (cat [Lit ''\<newline>'',
               Group 1 (cat [Lit ''[^'', Group 2 (One Digit), Lit '']'', Star AnyChar])])
         (cat [Lit ''<p>'',
               Group 3 (cat [Lit ''[^'', Group 4 (One Digit), Lit '']'', Star AnyChar])])\<close>

fun process_ref_list :: "string \<Rightarrow> caps list \<Rightarrow> error + string" where
  \<open>process_ref_list html [] = Inr html\<close>
| \<open>process_ref_list html (ref # refs) =
     (let (full_ref, ref_id) =
            (if group_of ref 1 \<noteq> []
             then (replace (replace (group_of ref 1) ''</p>'' []) ''<p>'' [], group_of ref 2)
             else (group_of ref 3, group_of ref 4));
          full_ref = replace (replace full_ref ''</p>'' []) ''<p>'' [];
          html = replace html full_ref []
      in case re_search (cat [Lit ''href="'', Group 1 (StarLazy AnyChar), Lit ''"'']) full_ref 0 of
           None \<Rightarrow> Inl AttributeError
         | Some m \<Rightarrow>
             let href = group_of (m_caps m) 1;
                 superscript = ''<a id="test" href="'' @ href @ ''"><sup>'' @ ref_id @ ''</sup></a>''
             in process_ref_list (replace html (''[^'' @ ref_id @ '']'') superscript) refs)\<close>

definition process_refs :: "string \<Rightarrow> error + string" where
  \<open>process_refs html = process_ref_list html (map m_caps (finditer footnote_def html 0))\<close>

text \<open>
  \<^verbatim>\<open>get_body\<close>. The Markdown renderer is a library the importer calls; it is the
  parameter \<open>markdown\<close> here.
\<close>

definition get_body :: "(string \<Rightarrow> string) \<Rightarrow> filesystem \<Rightarrow> string \<Rightarrow> error + string" where
  \<open>get_body markdown fs file_path =
     (case read_file fs file_path of
        None \<Rightarrow> Inl FileNotFoundError
      | Some mdfile \<Rightarrow>
          (case convert_info_macros (markdown (universal_newlines mdfile)) of
             Inl e \<Rightarrow> Inl e
           | Inr html \<Rightarrow>
               (case convert_code_block (convert_comment_block html) of
                  Inl e \<Rightarrow> Inl e
                | Inr html \<Rightarrow> process_refs html)))\<close>

section \<open>The remote hierarchy builder\<close>

text \<open>Reading \<^verbatim>\<open>d[k]\<close> from the page records, and \<^verbatim>\<open>xs[i]\<close> from a list.\<close>

definition lookup :: "(string \<rightharpoonup> string) \<Rightarrow> string \<Rightarrow> error + string" where
  "lookup d k = (case d k of None \<Rightarrow> Inl KeyError | Some v \<Rightarrow> Inr v)"

definition item :: "'a list \<Rightarrow> nat \<Rightarrow> error + 'a" where
  "item xs i = (if i < length xs then Inr (xs ! i) else Inl IndexError)"

text \<open>The page title that \<^verbatim>\<open>execute_import\<close> derives from a file of the plan tree:
  \<^verbatim>\<open>md_file[:-12]\<close>.\<close>

definition file_title :: "string \<Rightarrow> string" where
  "file_title md_file = drop_last 12 md_file"

text \<open>
  The builder changes the remote space as it goes, and the pages it has made stay when the
  run ends early: its loops give the state they leave and the error, if any.

  The inner loop: one page for each file of the directory, under \<open>page_id\<close>.
\<close>

fun upload_files ::
  "(string \<Rightarrow> string) \<Rightarrow> string \<Rightarrow> filesystem \<Rightarrow> string \<Rightarrow> remote \<Rightarrow> string list
     \<Rightarrow> remote \<times> error option" where
  "upload_files markdown work fs page_id rm [] = (rm, None)"
| "upload_files markdown work fs page_id rm (md_file # rest) =
     (case get_body markdown fs (path_join work md_file) of
        Inl e \<Rightarrow> (rm, Some e)
      | Inr content \<Rightarrow>
          (case create_page rm (file_title md_file) content page_id of
             Inl e \<Rightarrow> (rm, Some e)
           | Inr (new_id, rm') \<Rightarrow> upload_files markdown work fs page_id rm' rest))"

text \<open>One step of the walk, on the page records and the remote space.\<close>

type_synonym builder_state = "(string \<rightharpoonup> string) \<times> remote"

definition visit ::
  "(string \<Rightarrow> string) \<Rightarrow> string \<Rightarrow> filesystem \<Rightarrow> string \<Rightarrow> builder_state
     \<Rightarrow> string \<times> string list \<times> string list \<Rightarrow> builder_state \<times> error option" where
  "visit markdown work fs base_id st entry =
     (case st of (confluence_pages, rm) \<Rightarrow>
      case entry of (paths, subdirs, names) \<Rightarrow>
      case item (split paths (PLAN_FOLDER work)) 1 of
        Inl e \<Rightarrow> (st, Some e)
      | Inr page_path \<Rightarrow>
          let elems = tl (split page_path ''/'') in
          case (if 1 < length elems then lookup confluence_pages (''/'' @ join ''/'' (butlast elems))
                else Inr base_id) of
            Inl e \<Rightarrow> (st, Some e)
          | Inr ancestor_id \<Rightarrow>
              (case (if page_path \<noteq> []
                     then (case item elems (length elems - 1) of
                             Inl e \<Rightarrow> Inl e
                           | Inr ttl \<Rightarrow>
                               (case create_page rm ttl [] ancestor_id of
                                  Inl e \<Rightarrow> Inl e
                                | Inr (page_id, rm') \<Rightarrow>
                                    Inr (page_id, confluence_pages(page_path \<mapsto> page_id), rm')))
                     else Inr (base_id, confluence_pages, rm)) of
                 Inl e \<Rightarrow> (st, Some e)
               | Inr (page_id, confluence_pages', rm') \<Rightarrow>
                   (case upload_files markdown work fs page_id rm' names of
                      (rm'', err) \<Rightarrow> ((confluence_pages', rm''), err))))"

fun visit_all ::
  "(string \<Rightarrow> string) \<Rightarrow> string \<Rightarrow> filesystem \<Rightarrow> string \<Rightarrow> builder_state
     \<Rightarrow> (string \<times> string list \<times> string list) list \<Rightarrow> builder_state \<times> error option" where
  "visit_all markdown work fs base_id st [] = (st, None)"
| "visit_all markdown work fs base_id st (entry # entries) =
     (case visit markdown work fs base_id st entry of
        (st', Some e) \<Rightarrow> (st', Some e)
      | (st', None) \<Rightarrow> visit_all markdown work fs base_id st' entries)"

text \<open>\<^verbatim>\<open>execute_import\<close>, given the id of the space's home page.\<close>

definition execute_import ::
  "(string \<Rightarrow> string) \<Rightarrow> string \<Rightarrow> filesystem \<Rightarrow> string \<Rightarrow> remote \<Rightarrow> builder_state \<times> error option" where
  "execute_import markdown work fs base_id rm =
     visit_all markdown work fs base_id (Map.empty, rm) (os_walk fs (PLAN_FOLDER work))"

section \<open>The order of the walk\<close>

text \<open>Whether a text occurs in another.\<close>

fun occurs :: "string \<Rightarrow> string \<Rightarrow> bool" where
  "occurs sub [] = (sub = [])"
| "occurs sub (c # cs) = (startswith (c # cs) sub \<or> occurs sub cs)"



text \<open>
  What one step of the walk reads from the page records and what it writes to them: the
  key of \<^verbatim>\<open>page_path\<close>, the key it looks up (none for the plan folder and for a
  top-level directory), whether a set of keys has that key, and the keys after the step.
\<close>

definition page_path_of :: "string \<Rightarrow> string \<Rightarrow> string" where
  "page_path_of work paths =
     (case item (split paths (PLAN_FOLDER work)) 1 of Inr p \<Rightarrow> p | Inl e \<Rightarrow> [])"

definition needs_key :: "string \<Rightarrow> string option" where
  "needs_key page_path =
     (let elems = tl (split page_path ''/'') in
      if 1 < length elems then Some (''/'' @ join ''/'' (butlast elems)) else None)"

definition has_record :: "string \<Rightarrow> string set \<Rightarrow> string \<times> string list \<times> string list \<Rightarrow> bool" where
  "has_record work D entry =
     (case needs_key (page_path_of work (fst entry)) of None \<Rightarrow> True | Some k \<Rightarrow> k \<in> D)"

definition add_record ::
  "string \<Rightarrow> string set \<Rightarrow> string \<times> string list \<times> string list \<Rightarrow> string set" where
  "add_record work D entry =
     (if page_path_of work (fst entry) \<noteq> [] then insert (page_path_of work (fst entry)) D else D)"

text \<open>Every entry of a walk finds the key it looks up among those written before it.\<close>

fun records_in_order ::
  "string \<Rightarrow> string set \<Rightarrow> (string \<times> string list \<times> string list) list \<Rightarrow> bool" where
  "records_in_order work D [] = True"
| "records_in_order work D (entry # entries) =
     (has_record work D entry \<and> records_in_order work (add_record work D entry) entries)"



text \<open>A page that the builder made from one of the files \<open>names\<close>: it has the title and the
  body that the builder derives for a file of that name under the workspace folder.\<close>

definition uploads :: "(string \<Rightarrow> string) \<Rightarrow> string \<Rightarrow> filesystem \<Rightarrow> string list \<Rightarrow> page \<Rightarrow> bool" where
  "uploads markdown work fs names p =
     (\<exists>name \<in> set names. pg_title p = file_title name
        \<and> get_body markdown fs (path_join work name) = Inr (pg_body p))"

section \<open>The inputs of the worked examples\<close>

text \<open>
  The workspace of the end-to-end scenario, under the workspace folder \<^verbatim>\<open>w\<close>: the root
  index lists the leaf \<^verbatim>\<open>a.md\<close> and the index \<^verbatim>\<open>sub/index.md\<close>, which lists the leaf
  \<^verbatim>\<open>sub/c.md\<close>.
\<close>

definition scenario :: filesystem where
  "scenario =
     \<lparr>files = [(''w/index.md'', ''* [A](a.md)\<newline>* [B](sub/index.md)\<newline>''),
               (''w/a.md'', ''Alpha\<newline>''),
               (''w/sub/index.md'', ''* [C](sub/c.md)\<newline>''),
               (''w/sub/c.md'', ''Gamma\<newline>'')],
      dirs = [''w'', ''w/sub'']\<rparr>"

text \<open>The scenario after \<^verbatim>\<open>check_plan_requirements\<close>, and as the planner leaves it.\<close>

definition scenario_checked :: filesystem where
  "scenario_checked = scenario\<lparr>dirs := dirs scenario @ [''w/plan'']\<rparr>"

definition scenario_left :: filesystem where
  "scenario_left =
     scenario_checked\<lparr>files := files scenario @ [(''w/plan/a.md'', ''Alpha\<newline>'')]\<rparr>"

text \<open>An empty space: its home page, and the ids the server gives out next.\<close>

definition empty_space :: remote where
  "empty_space =
     \<lparr>pages = [\<lparr>pg_id = ''1'', pg_title = ''Home'', pg_body = [], pg_ancestors = []\<rparr>],
      fresh_ids = [''2'', ''3'', ''4'', ''5'']\<rparr>"

text \<open>A space that already has the container page \<^verbatim>\<open>B\<close> right under its home page.\<close>

definition space_with_B :: remote where
  "space_with_B =
     \<lparr>pages = [\<lparr>pg_id = ''1'', pg_title = ''Home'', pg_body = [], pg_ancestors = []\<rparr>,
               \<lparr>pg_id = ''2'', pg_title = ''B'', pg_body = [], pg_ancestors = [''1'']\<rparr>],
      fresh_ids = [''3'', ''4'']\<rparr>"


text \<open>
  A workspace whose index lists a leaf in a subfolder, with another file of the same name
  right under the workspace folder; and the same workspace after planning.
\<close>

definition nested :: filesystem where
  "nested =
     \<lparr>files = [(''w/index.md'', ''* [Notes](sub/Notes 00000001.md)\<newline>''),
               (''w/sub/Notes 00000001.md'', ''from sub\<newline>''),
               (''w/Notes 00000001.md'', ''from root\<newline>'')],
      dirs = [''w'', ''w/sub'']\<rparr>"

definition nested_planned :: filesystem where
  "nested_planned =
     \<lparr>files = files nested @ [(''w/plan/Notes 00000001.md'', ''from sub\<newline>'')],
      dirs = dirs nested @ [''w/plan'']\<rparr>"

section \<open>Evaluation\<close>

lemmas eval_defs =
  process_line_def re_search_def match_at_def index_entry_def lit_eq_def has_flag_def
  re_IGNORECASE_def re_DOTALL_def mk_match_def group_of_def path_join_def startswith_def
  endswith_def replace_def isfile_def read_file_def is_index_file_def re_match_def copy_def
  isdir_def canon_def PLAN_FOLDER_def basename_def dirname_def write_file_def
  get_subfolder_name_def drop_last_def Let_def

section \<open>Names and classification\<close>

lemma is_index_lines_all:
  "is_index_lines ls = list_all (\<lambda>l. re_match index_entry l 0 \<noteq> None) ls"
  by (induction ls) simp_all

text \<open>
  Claim C1. The folder name of the planner and the page title of the builder are meant to
  be the file name without its \<^verbatim>\<open>.md\<close> extension (three characters). The code removes
  twelve characters: a name of at most twelve characters becomes empty, and a longer one
  loses nine characters of its stem.
\<close>

theorem suffix_strip_removes_twelve:
  "get_subfolder_name ''a.md'' = [] \<and>
   get_subfolder_name ''Release notes.md'' = ''Rele'' \<and>
   file_title ''a.md'' = [] \<and>
   file_title ''Release notes.md'' = ''Rele''"
  by (simp add: get_subfolder_name_def file_title_def endswith_def drop_last_def replace_def
      startswith_def)

text \<open>
  Claim C5. \<^verbatim>\<open>is_index_file\<close> answers that a readable file is an index exactly when every
  line of it matches the Index Entry pattern; one line that does not match makes the file
  a leaf, whatever the other lines are, and a file without lines is an index. The lines
  are those of the file read in text mode, so a carriage return ends a line too.
\<close>

theorem is_index_file_iff_all_lines:
  assumes "read_file fs p = Some content"
  shows "(is_index_file fs p = Inr True \<longleftrightarrow>
            (\<forall>l \<in> set (file_lines content). re_match index_entry l 0 \<noteq> None))
       \<and> (is_index_file fs p = Inr False \<longleftrightarrow>
            (\<exists>l \<in> set (file_lines content). re_match index_entry l 0 = None))
       \<and> (content = [] \<longrightarrow> is_index_file fs p = Inr True)"
  using assms by (auto simp: is_index_file_def is_index_lines_all list_all_iff)

theorem is_index_file_iff_all_lines_witness:
  "is_index_file \<lparr>files = [(''w/x.md'', ''* [A](a.md)\<newline>text\<newline>* [B](b.md)\<newline>'')],
                   dirs = []\<rparr> ''w/x.md'' = Inr False
   \<and> is_index_file \<lparr>files = [(''w/y.md'', ''* [A](a.md)\<newline>* [B](b.md)\<newline>'')],
                   dirs = []\<rparr> ''w/y.md'' = Inr True
   \<and> is_index_file \<lparr>files = [(''w/e.md'', [])], dirs = []\<rparr> ''w/e.md'' = Inr True
   \<and> is_index_file \<lparr>files = [(''w/r.md'', ''* [A](a.md)'' @ [CHR 0x0D] @ ''text'' @ [CHR 0x0D])],
                   dirs = []\<rparr> ''w/r.md'' = Inr False"
proof -
  let ?x = "''* [A](a.md)\<newline>text\<newline>* [B](b.md)\<newline>''"
  let ?y = "''* [A](a.md)\<newline>* [B](b.md)\<newline>''"
  let ?r = "''* [A](a.md)'' @ [CHR 0x0D] @ ''text'' @ [CHR 0x0D]"
  have m: "re_match index_entry ''text\<newline>'' 0 = None"
          "re_match index_entry ''* [A](a.md)\<newline>'' 0 \<noteq> None"
          "re_match index_entry ''* [B](b.md)\<newline>'' 0 \<noteq> None"
    by (simp_all add: re_match_def match_at_def index_entry_def lit_eq_def has_flag_def
        re_IGNORECASE_def re_DOTALL_def)
  have r: "read_file \<lparr>files = [(''w/x.md'', ?x)], dirs = []\<rparr> ''w/x.md'' = Some ?x"
          "read_file \<lparr>files = [(''w/y.md'', ?y)], dirs = []\<rparr> ''w/y.md'' = Some ?y"
          "read_file \<lparr>files = [(''w/e.md'', [])], dirs = []\<rparr> ''w/e.md'' = Some []"
          "read_file \<lparr>files = [(''w/r.md'', ?r)], dirs = []\<rparr> ''w/r.md'' = Some ?r"
    by (simp_all add: read_file_def endswith_def)
  have l: "file_lines ?r = [''* [A](a.md)\<newline>'', ''text\<newline>'']"
    by simp
  have "is_index_file \<lparr>files = [(''w/x.md'', ?x)], dirs = []\<rparr> ''w/x.md'' = Inr False"
    using is_index_file_iff_all_lines [OF r(1)] m by simp
  moreover have "is_index_file \<lparr>files = [(''w/y.md'', ?y)], dirs = []\<rparr> ''w/y.md'' = Inr True"
    using is_index_file_iff_all_lines [OF r(2)] m by simp
  moreover have "is_index_file \<lparr>files = [(''w/e.md'', [])], dirs = []\<rparr> ''w/e.md'' = Inr True"
    using is_index_file_iff_all_lines [OF r(3)] by simp
  moreover have "is_index_file \<lparr>files = [(''w/r.md'', ?r)], dirs = []\<rparr> ''w/r.md'' = Inr False"
    using is_index_file_iff_all_lines [OF r(4)] m unfolding l by simp
  ultimately show ?thesis by simp
qed

section \<open>The page-reuse check\<close>

lemma is_child_ignores_ancestor: "is_child rm child a = is_child rm child b"
  by (simp add: is_child_def)

text \<open>
  Claim C2. A page is meant to be reused when a page of the same title has the intended
  ancestor as its parent. \<^verbatim>\<open>is_child\<close> compares the last ancestor of the candidate with
  the candidate's own id, so for the page \<^verbatim>\<open>B\<close> that sits right under the home page
  \<^verbatim>\<open>get_page_id\<close> finds nothing, and \<^verbatim>\<open>create_page\<close> posts a second page \<^verbatim>\<open>B\<close> under the
  same parent.
\<close>

theorem existing_child_is_not_reused:
  "is_child space_with_B ''2'' ''1'' = Inr False \<and>
   get_page_id space_with_B ''B'' ''1'' = Inr [] \<and>
   create_page space_with_B ''B'' [] ''1'' =
     Inr (''3'',
          \<lparr>pages = [\<lparr>pg_id = ''1'', pg_title = ''Home'', pg_body = [], pg_ancestors = []\<rparr>,
                    \<lparr>pg_id = ''2'', pg_title = ''B'', pg_body = [], pg_ancestors = [''1'']\<rparr>,
                    \<lparr>pg_id = ''3'', pg_title = ''B'', pg_body = [], pg_ancestors = [''1'']\<rparr>],
           fresh_ids = [''4'']\<rparr>)"
  by (simp add: is_child_def get_page_id_def create_page_def post_page_def space_with_B_def)

section \<open>The end-to-end scenario\<close>

lemma scenario_check: "check_plan_requirements ''w'' scenario = (scenario_checked, None)"
  by (simp add: check_plan_requirements_def makedirs_def eval_defs scenario_def
      scenario_checked_def)

lemma scenario_lines_checked:
  "process_lines rec ''w'' [] scenario_checked
     (file_lines ''* [A](a.md)\<newline>* [B](sub/index.md)\<newline>'')
   = (case rec scenario_left [] ''index.md'' of
        (fs', Some e) \<Rightarrow> (fs', Some (caught e))
      | (fs', None) \<Rightarrow> (fs', None))"
  by (simp add: eval_defs scenario_checked_def scenario_def scenario_left_def
      split: prod.splits option.splits)

lemma scenario_lines_left:
  "process_lines rec ''w'' [] scenario_left
     (file_lines ''* [A](a.md)\<newline>* [B](sub/index.md)\<newline>'')
   = (case rec scenario_left [] ''index.md'' of
        (fs', Some e) \<Rightarrow> (fs', Some (caught e))
      | (fs', None) \<Rightarrow> (fs', None))"
  by (simp add: eval_defs scenario_checked_def scenario_def scenario_left_def
      split: prod.splits option.splits)

lemma scenario_root_index:
  "read_file scenario_checked (path_join ''w'' ''index.md'')
     = Some ''* [A](a.md)\<newline>* [B](sub/index.md)\<newline>''"
  "read_file scenario_left (path_join ''w'' ''index.md'')
     = Some ''* [A](a.md)\<newline>* [B](sub/index.md)\<newline>''"
  by (simp_all add: eval_defs scenario_checked_def scenario_def scenario_left_def)

lemma scenario_repeats:
  "\<exists>e. process_index n ''w'' scenario_left [] ''index.md'' = (scenario_left, Some e)"
proof (induction n)
  case 0
  show ?case by simp
next
  case (Suc n)
  then obtain e where e: "process_index n ''w'' scenario_left [] ''index.md'' = (scenario_left, Some e)"
    by blast
  have "process_index (Suc n) ''w'' scenario_left [] ''index.md'' = (scenario_left, Some SysExit)"
    unfolding process_index.simps
    using scenario_root_index(2) scenario_lines_left [of "process_index n ''w''"] e
    by (simp add: caught_def del: file_lines.simps)
  then show ?case by blast
qed

lemma scenario_first_call:
  "process_index (Suc n) ''w'' scenario_checked [] ''index.md'' = (scenario_left, Some SysExit)"
proof -
  obtain e where e: "process_index n ''w'' scenario_left [] ''index.md'' = (scenario_left, Some e)"
    using scenario_repeats by blast
  show ?thesis
    unfolding process_index.simps
    using scenario_root_index(1) scenario_lines_checked [of "process_index n ''w''"] e
    by (simp add: caught_def del: file_lines.simps)
qed

lemma scenario_plan: "plan_import (Suc n) ''w'' scenario = (scenario_left, Some SysExit)"
  by (simp add: plan_import_def scenario_check scenario_first_call del: process_index.simps)

lemma scenario_walk: "os_walk scenario_left (PLAN_FOLDER ''w'') = [(''w/plan'', [], [''a.md''])]"
  by code_simp

lemma scenario_names:
  "get_subfolder_name (basename ''w/sub/index.md'') = []"
  "path_join [] [] = []"
  "path_join ''w'' (basename ''w/sub/index.md'') = ''w/index.md''"
  by (simp_all add: get_subfolder_name_def basename_def path_join_def endswith_def
      drop_last_def replace_def startswith_def)

text \<open>
  Claim C3. The workspace of the scenario is not planned as the claim says. The entry
  \<^verbatim>\<open>sub/index.md\<close> is an index file; the planner derives its folder from the base name
  \<^verbatim>\<open>index.md\<close> with the twelve-character cut, which gives the empty name instead of a
  subfolder, and reads it again by that base name under the workspace folder, which is the
  root index. So the root index is planned inside itself until the interpreter's recursion
  limit ends the run with \<^verbatim>\<open>SystemExit\<close>, whatever the limit is. The plan folder is left
  with the copy of \<^verbatim>\<open>a.md\<close> and nothing else: no subfolder, no copy of \<^verbatim>\<open>c.md\<close>. Executing
  what was left against an empty space makes one page, with the empty title, under the
  home page: not the three pages \<^verbatim>\<open>A\<close>, \<^verbatim>\<open>B\<close> and \<^verbatim>\<open>C\<close>.
\<close>

theorem scenario_is_not_planned:
  "get_subfolder_name (basename ''w/sub/index.md'') = []
   \<and> path_join ''w'' (basename ''w/sub/index.md'') = ''w/index.md''
   \<and> (\<forall>n. plan_import (Suc n) ''w'' scenario = (scenario_left, Some SysExit))
   \<and> \<not> isdir scenario_left ''w/plan/B''
   \<and> read_file scenario_left ''w/plan/B/c.md'' = None
   \<and> os_walk scenario_left (PLAN_FOLDER ''w'') = [(''w/plan'', [], [''a.md''])]
   \<and> execute_import markdown ''w'' scenario_left ''1'' empty_space =
       (case get_body markdown scenario_left ''w/a.md'' of
          Inl e \<Rightarrow> ((Map.empty, empty_space), Some e)
        | Inr content \<Rightarrow>
            ((Map.empty,
              \<lparr>pages = [\<lparr>pg_id = ''1'', pg_title = ''Home'', pg_body = [], pg_ancestors = []\<rparr>,
                        \<lparr>pg_id = ''2'', pg_title = [], pg_body = content,
                           pg_ancestors = [''1'']\<rparr>],
               fresh_ids = [''3'', ''4'', ''5'']\<rparr>), None))"
proof -
  have ex: "execute_import markdown ''w'' scenario_left ''1'' empty_space =
       (case get_body markdown scenario_left ''w/a.md'' of
          Inl e \<Rightarrow> ((Map.empty, empty_space), Some e)
        | Inr content \<Rightarrow>
            ((Map.empty,
              \<lparr>pages = [\<lparr>pg_id = ''1'', pg_title = ''Home'', pg_body = [], pg_ancestors = []\<rparr>,
                        \<lparr>pg_id = ''2'', pg_title = [], pg_body = content,
                           pg_ancestors = [''1'']\<rparr>],
               fresh_ids = [''3'', ''4'', ''5'']\<rparr>), None))"
    unfolding execute_import_def scenario_walk
    by (simp add: visit_def item_def PLAN_FOLDER_def path_join_def startswith_def endswith_def
        create_page_def get_page_id_def post_page_def empty_space_def file_title_def
        drop_last_def split: sum.splits)
  have left: "\<not> isdir scenario_left ''w/plan/B''"
             "read_file scenario_left ''w/plan/B/c.md'' = None"
    by (simp_all add: isdir_def canon_def read_file_def endswith_def startswith_def
        scenario_left_def scenario_checked_def scenario_def)
  show ?thesis
    using scenario_names(1,3) scenario_plan scenario_walk ex left
    by (simp only: simp_thms)
qed

section \<open>Admonitions\<close>

text \<open>
  Claim C6. A block quote whose label is written \<^verbatim>\<open>NOTE\<close> is recognised as a note, since
  the test for the label ignores case, but its label stays in the text: \<^verbatim>\<open>strip_type\<close>
  passes \<^verbatim>\<open>re.IGNORECASE\<close> to \<^verbatim>\<open>re.sub\<close> as the count of replacements, so the label is
  removed only when it is written \<^verbatim>\<open>Note\<close>.
\<close>

theorem label_kept_when_case_differs:
  \<open>convert_info_macros ''<blockquote>\<newline><p>NOTE: careful</p>\<newline></blockquote>'' =
     Inr ''<p><ac:structured-macro ac:name="note"><ac:rich-text-body><p>NOTE: careful</p></ac:rich-text-body></ac:structured-macro></p>''
   \<and> convert_info_macros ''<blockquote>\<newline><p>Note: careful</p>\<newline></blockquote>'' =
     Inr ''<p><ac:structured-macro ac:name="note"><ac:rich-text-body><p>Careful</p></ac:rich-text-body></ac:structured-macro></p>''\<close>
  by code_simp

section \<open>The order of the walk and the page records\<close>




















lemma add_record_mono: "D \<subseteq> D' \<Longrightarrow> add_record work D x \<subseteq> add_record work D' x"
  by (auto simp: add_record_def)


lemma has_record_mono: "D \<subseteq> D' \<Longrightarrow> has_record work D x \<Longrightarrow> has_record work D' x"
  by (auto simp: has_record_def split: option.splits)

lemma records_in_order_mono:
  "records_in_order work D xs \<Longrightarrow> D \<subseteq> D' \<Longrightarrow> records_in_order work D' xs"
proof (induction xs arbitrary: D D')
  case Nil
  show ?case by simp
next
  case (Cons x xs)
  from Cons.prems have h: "has_record work D x" and r: "records_in_order work (add_record work D x) xs"
    by (simp_all only: records_in_order.simps)
  have "has_record work D' x" using has_record_mono Cons.prems(2) h by blast
  moreover have "records_in_order work (add_record work D' x) xs"
    using Cons.IH [OF r add_record_mono [OF Cons.prems(2)]] .
  ultimately show ?case by (simp only: records_in_order.simps)
qed








lemma occurs_Nil: "occurs sub [] \<longleftrightarrow> sub = []"
  by simp





section \<open>The bodies of the pages\<close>

lemma create_page_pages:
  assumes "create_page rm ttl content ancestor = Inr (i, rm')"
  shows "pages rm' = pages rm \<or>
         (\<exists>p. pages rm' = pages rm @ [p] \<and> pg_body p = content \<and> pg_title p = ttl)"
proof (cases "get_page_id rm ttl ancestor")
  case (Inl e)
  with assms show ?thesis by (simp add: create_page_def)
next
  case (Inr existing_id)
  show ?thesis
  proof (cases "existing_id = []")
    case False
    with assms Inr show ?thesis by (simp add: create_page_def)
  next
    case True
    with assms Inr have "post_page rm ttl content ancestor = Inr (i, rm')"
      by (simp add: create_page_def)
    then show ?thesis
      by (auto simp: post_page_def split: option.splits list.splits)
  qed
qed

lemma upload_files_pages:
  "\<exists>ps. pages (fst (upload_files markdown work fs page_id rm names)) = pages rm @ ps
        \<and> (\<forall>p \<in> set ps. uploads markdown work fs names p)"
proof (induction names arbitrary: rm)
  case Nil
  show ?case by simp
next
  case (Cons n names)
  show ?case
  proof (cases "get_body markdown fs (path_join work n)")
    case (Inl e)
    then show ?thesis by simp
  next
    case body: (Inr content)
    show ?thesis
    proof (cases "create_page rm (file_title n) content page_id")
      case (Inl e)
      with body show ?thesis by simp
    next
      case (Inr r)
      obtain i rm' where r: "r = (i, rm')" by (cases r) auto
      from Cons.IH [of rm'] obtain ps where
        ps: "pages (fst (upload_files markdown work fs page_id rm' names)) = pages rm' @ ps"
            "\<forall>p \<in> set ps. uploads markdown work fs names p"
        by blast
      have up: "\<forall>p \<in> set ps. uploads markdown work fs (n # names) p"
        using ps(2) by (auto simp: uploads_def)
      from create_page_pages [OF Inr [unfolded r]]
      show ?thesis
      proof
        assume "pages rm' = pages rm"
        with ps up body Inr r show ?thesis by auto
      next
        assume "\<exists>p. pages rm' = pages rm @ [p] \<and> pg_body p = content \<and> pg_title p = file_title n"
        then obtain p where p: "pages rm' = pages rm @ [p]" "pg_body p = content"
          "pg_title p = file_title n" by blast
        then have "uploads markdown work fs (n # names) p"
          using body by (simp add: uploads_def)
        with p ps up body Inr r show ?thesis by auto
      qed
    qed
  qed
qed

lemma visit_shape:
  "(\<exists>e. visit markdown work fs base_id (cp, rm) (paths, subdirs, names) = ((cp, rm), Some e)) \<or>
   (\<exists>page_id cp' rm'.
       (rm' = rm \<or> (\<exists>ttl a. create_page rm ttl [] a = Inr (page_id, rm'))) \<and>
       visit markdown work fs base_id (cp, rm) (paths, subdirs, names) =
         (case upload_files markdown work fs page_id rm' names of
            (rm'', err) \<Rightarrow> ((cp', rm''), err)))"
proof (cases "item (split paths (PLAN_FOLDER work)) 1")
  case (Inl e)
  then show ?thesis by (simp add: visit_def)
next
  case pp: (Inr page_path)
  let ?elems = "tl (split page_path ''/'')"
  let ?anc = "if 1 < length ?elems then lookup cp (''/'' @ join ''/'' (butlast ?elems))
              else Inr base_id"
  show ?thesis
  proof (cases ?anc)
    case (Inl e)
    then have "visit markdown work fs base_id (cp, rm) (paths, subdirs, names) = ((cp, rm), Some e)"
      by (simp only: visit_def prod.case pp sum.case Let_def)
    then show ?thesis by blast
  next
    case anc: (Inr a)
    let ?made = "if page_path \<noteq> []
                 then (case item ?elems (length ?elems - 1) of
                         Inl e \<Rightarrow> Inl e
                       | Inr ttl \<Rightarrow>
                           (case create_page rm ttl [] a of
                              Inl e \<Rightarrow> Inl e
                            | Inr (page_id, rm') \<Rightarrow>
                                Inr (page_id, cp(page_path \<mapsto> page_id), rm')))
                 else Inr (base_id, cp, rm)"
    have v: "visit markdown work fs base_id (cp, rm) (paths, subdirs, names) =
       (case ?made of
          Inl e \<Rightarrow> ((cp, rm), Some e)
        | Inr (page_id, cp', rm') \<Rightarrow>
            (case upload_files markdown work fs page_id rm' names of
               (rm'', err) \<Rightarrow> ((cp', rm''), err)))"
      by (simp only: visit_def prod.case pp sum.case Let_def anc)
    show ?thesis
    proof (cases ?made)
      case (Inl e)
      with v show ?thesis by simp
    next
      case (Inr r)
      obtain page_id cp' rm' where r: "r = (page_id, cp', rm')" by (cases r) auto
      have "rm' = rm \<or> (\<exists>ttl a. create_page rm ttl [] a = Inr (page_id, rm'))"
      proof (cases "page_path = []")
        case True
        with Inr r show ?thesis by simp
      next
        case False
        with Inr r have m: "(case item ?elems (length ?elems - 1) of
                         Inl e \<Rightarrow> Inl e
                       | Inr ttl \<Rightarrow>
                           (case create_page rm ttl [] a of
                              Inl e \<Rightarrow> Inl e
                            | Inr (page_id, rm') \<Rightarrow>
                                Inr (page_id, cp(page_path \<mapsto> page_id), rm')))
                     = Inr (page_id, cp', rm')" by simp
        then obtain ttl where "item ?elems (length ?elems - 1) = Inr ttl"
          by (cases "item ?elems (length ?elems - 1)") simp_all
        with m have "(case create_page rm ttl [] a of
                              Inl e \<Rightarrow> Inl e
                            | Inr (page_id, rm') \<Rightarrow>
                                Inr (page_id, cp(page_path \<mapsto> page_id), rm'))
                     = Inr (page_id, cp', rm')" by simp
        then have "create_page rm ttl [] a = Inr (page_id, rm')"
          by (cases "create_page rm ttl [] a") (auto split: prod.splits)
        then show ?thesis by blast
      qed
      moreover have "visit markdown work fs base_id (cp, rm) (paths, subdirs, names) =
         (case upload_files markdown work fs page_id rm' names of
            (rm'', err) \<Rightarrow> ((cp', rm''), err))"
        using v Inr r by simp
      ultimately show ?thesis by blast
    qed
  qed
qed

lemma visit_pages:
  "\<exists>ps. pages (snd (fst (visit markdown work fs base_id (cp, rm) entry))) = pages rm @ ps
        \<and> (\<forall>p \<in> set ps. pg_body p = [] \<or> uploads markdown work fs (snd (snd entry)) p)"
proof -
  obtain paths subdirs names where e: "entry = (paths, subdirs, names)" by (cases entry) auto
  from visit_shape [of markdown work fs base_id cp rm paths subdirs names]
  show ?thesis
  proof
    assume "\<exists>e. visit markdown work fs base_id (cp, rm) (paths, subdirs, names) = ((cp, rm), Some e)"
    then show ?thesis unfolding e by auto
  next
    assume "\<exists>page_id cp' rm'.
       (rm' = rm \<or> (\<exists>ttl a. create_page rm ttl [] a = Inr (page_id, rm'))) \<and>
       visit markdown work fs base_id (cp, rm) (paths, subdirs, names) =
         (case upload_files markdown work fs page_id rm' names of
            (rm'', err) \<Rightarrow> ((cp', rm''), err))"
    then obtain page_id cp' rm' where
      mk: "rm' = rm \<or> (\<exists>ttl a. create_page rm ttl [] a = Inr (page_id, rm'))"
      and v: "visit markdown work fs base_id (cp, rm) (paths, subdirs, names) =
         (case upload_files markdown work fs page_id rm' names of
            (rm'', err) \<Rightarrow> ((cp', rm''), err))"
      by blast
    have "\<exists>qs. pages rm' = pages rm @ qs \<and> (\<forall>p \<in> set qs. pg_body p = [])"
      using mk
    proof
      assume "rm' = rm"
      then show ?thesis by (intro exI [of _ "[]"]) simp
    next
      assume "\<exists>ttl a. create_page rm ttl [] a = Inr (page_id, rm')"
      then obtain ttl a where c: "create_page rm ttl [] a = Inr (page_id, rm')" by blast
      from create_page_pages [OF c] show ?thesis
      proof
        assume "pages rm' = pages rm"
        then show ?thesis by (intro exI [of _ "[]"]) simp
      next
        assume "\<exists>p. pages rm' = pages rm @ [p] \<and> pg_body p = [] \<and> pg_title p = ttl"
        then obtain p where "pages rm' = pages rm @ [p]" "pg_body p = []" by blast
        then show ?thesis by (intro exI [of _ "[p]"]) simp
      qed
    qed
    then obtain qs where qs: "pages rm' = pages rm @ qs" "\<forall>p \<in> set qs. pg_body p = []"
      by blast
    from upload_files_pages [of markdown work fs page_id rm' names] obtain ps where
      ps: "pages (fst (upload_files markdown work fs page_id rm' names)) = pages rm' @ ps"
          "\<forall>p \<in> set ps. uploads markdown work fs names p"
      by blast
    have "pages (snd (fst (visit markdown work fs base_id (cp, rm) entry))) = pages rm @ (qs @ ps)"
      using v ps(1) qs(1) unfolding e by (simp split: prod.splits)
    moreover have "\<forall>p \<in> set (qs @ ps). pg_body p = [] \<or> uploads markdown work fs (snd (snd entry)) p"
      using qs(2) ps(2) unfolding e by auto
    ultimately show ?thesis by blast
  qed
qed

lemma visit_all_pages:
  "\<exists>ps. pages (snd (fst (visit_all markdown work fs base_id (cp, rm) entries))) = pages rm @ ps
        \<and> (\<forall>p \<in> set ps. pg_body p = [] \<or>
              (\<exists>entry \<in> set entries. uploads markdown work fs (snd (snd entry)) p))"
proof (induction entries arbitrary: cp rm)
  case Nil
  show ?case by simp
next
  case (Cons entry entries)
  obtain cp' rm' err where v: "visit markdown work fs base_id (cp, rm) entry = ((cp', rm'), err)"
    by (metis surj_pair)
  from visit_pages [of markdown work fs base_id cp rm entry] v obtain qs where
    qs: "pages rm' = pages rm @ qs"
        "\<forall>p \<in> set qs. pg_body p = [] \<or> uploads markdown work fs (snd (snd entry)) p"
    by auto
  show ?case
  proof (cases err)
    case (Some e)
    with v qs show ?thesis by auto
  next
    case None
    from Cons.IH [of cp' rm'] obtain ps where
      ps: "pages (snd (fst (visit_all markdown work fs base_id (cp', rm') entries))) = pages rm' @ ps"
          "\<forall>p \<in> set ps. pg_body p = [] \<or>
              (\<exists>entry \<in> set entries. uploads markdown work fs (snd (snd entry)) p)"
      by blast
    have "pages (snd (fst (visit_all markdown work fs base_id (cp, rm) (entry # entries))))
            = pages rm @ (qs @ ps)"
      using v None ps(1) qs(1) by simp
    moreover have "\<forall>p \<in> set (qs @ ps). pg_body p = [] \<or>
              (\<exists>e \<in> set (entry # entries). uploads markdown work fs (snd (snd e)) p)"
      using qs(2) ps(2) by auto
    ultimately show ?thesis by blast
  qed
qed

lemma uploaded_body_is_workspace_file:
  "\<exists>ps. pages (snd (fst (execute_import markdown work fs base_id rm))) = pages rm @ ps
        \<and> (\<forall>p \<in> set ps. pg_body p = [] \<or>
              (\<exists>entry \<in> set (os_walk fs (PLAN_FOLDER work)).
                 \<exists>name \<in> set (snd (snd entry)).
                   pg_title p = file_title name
                   \<and> get_body markdown fs (path_join work name) = Inr (pg_body p)))"
  using visit_all_pages [of markdown work fs base_id Map.empty rm "os_walk fs (PLAN_FOLDER work)"]
  unfolding execute_import_def uploads_def by simp

lemma nested_plan: "plan_import 2 ''w'' nested = (nested_planned, None)"
  by code_simp

lemma nested_execute:
  "snd (fst (execute_import (\<lambda>s. s) ''w'' nested_planned ''1'' empty_space)) =
     \<lparr>pages = [\<lparr>pg_id = ''1'', pg_title = ''Home'', pg_body = [], pg_ancestors = []\<rparr>,
               \<lparr>pg_id = ''2'', pg_title = ''Notes'', pg_body = ''from root\<newline>'',
                  pg_ancestors = [''1'']\<rparr>],
      fresh_ids = [''3'', ''4'', ''5'']\<rparr>"
  by code_simp

text \<open>
  Claim C4. The body of a leaf's page is meant to be made from the file that the walk
  meets in the plan tree. \<^verbatim>\<open>execute_import\<close> reads \<^verbatim>\<open>os.path.join(WORK_FOLDER, md_file)\<close>
  instead: here the planner copied \<^verbatim>\<open>sub/Notes 00000001.md\<close> into the plan tree, and the
  page gets the text of the other file of that name, the one right under the workspace
  folder (the renderer is taken to leave plain text as it is).
\<close>

theorem plan_copy_is_not_read:
  "plan_import 2 ''w'' nested = (nested_planned, None)
   \<and> get_body (\<lambda>s. s) nested_planned ''w/plan/Notes 00000001.md'' = Inr ''from sub\<newline>''
   \<and> map pg_body (pages (snd (fst (execute_import (\<lambda>s. s) ''w'' nested_planned ''1'' empty_space))))
       = [[], ''from root\<newline>'']"
proof -
  have "get_body (\<lambda>s. s) nested_planned ''w/plan/Notes 00000001.md'' = Inr ''from sub\<newline>''"
    by code_simp
  then show ?thesis using nested_plan nested_execute by simp
qed

end
